theory Spec2Isabelle
  imports Main "HOL-Library.Sublist"
begin

section \<open>Values\<close>

text \<open>
  A JavaScript fault. \<open>Error m\<close> is \<^verbatim>\<open>new Error(m)\<close> created by this program,
  \<open>TypeError m\<close> is what \<^verbatim>\<open>new URL(s)\<close> throws on a string that is no URL, and
  \<open>External m\<close> is a fault raised by a collaborator outside the program (fetch, the JSON
  parser, the MCP SDK, the upstream service).
\<close>

datatype fault = Error string | TypeError string | External string

text \<open>Truthiness of a string, and of a string that may be \<^verbatim>\<open>undefined\<close>.\<close>

fun truthy_opt :: "string option \<Rightarrow> bool" where
  "truthy_opt None = False"
| "truthy_opt (Some s) = (s \<noteq> [])"

text \<open>
  A value of \<^verbatim>\<open>req.query\<close> under the query parser of Express 5: absent, one string, or
  an array of strings when the parameter is repeated.
\<close>

datatype qparam = QAbsent | QStr string | QArr "string list"

fun truthy_q :: "qparam \<Rightarrow> bool" where
  "truthy_q QAbsent = False"
| "truthy_q (QStr s) = (s \<noteq> [])"
| "truthy_q (QArr xs) = True"

text \<open>\<^verbatim>\<open>Array.prototype.join\<close>.\<close>

fun join :: "string \<Rightarrow> string list \<Rightarrow> string" where
  "join sep [] = []"
| "join sep [x] = x"
| "join sep (x # y # ys) = x @ sep @ join sep (y # ys)"

text \<open>The text a template literal gives for a query value.\<close>

fun js_string :: "qparam \<Rightarrow> string" where
  "js_string QAbsent = ''undefined''"
| "js_string (QStr s) = s"
| "js_string (QArr xs) = join '','' xs"

text \<open>\<^verbatim>\<open>returnedState === this._state\<close>: strict equality of a query value and the stored state.\<close>

fun strict_eq :: "qparam \<Rightarrow> string option \<Rightarrow> bool" where
  "strict_eq QAbsent None = True"
| "strict_eq (QStr s) (Some t) = (s = t)"
| "strict_eq q st = False"

text \<open>\<^verbatim>\<open>a || b\<close> on strings that may be undefined.\<close>

fun js_or :: "string option \<Rightarrow> string option \<Rightarrow> string option" where
  "js_or (Some s) b = (if s \<noteq> [] then Some s else b)"
| "js_or None b = b"

text \<open>\<^verbatim>\<open>String.prototype.replace\<close> with a string pattern: the first occurrence only.\<close>

fun js_replace :: "string \<Rightarrow> string \<Rightarrow> string \<Rightarrow> string" where
  "js_replace pat rep [] = (if pat = [] then rep else [])"
| "js_replace pat rep (c # cs) =
     (if prefix pat (c # cs) then rep @ drop (length pat) (c # cs)
      else c # js_replace pat rep cs)"

record query =
  q_code :: qparam
  q_state :: qparam
  q_error :: qparam

record config =
  clientId :: string
  clientSecret :: string
  redirectUri :: string
  scopes :: "string list"
  mcpServer_url :: string
  mcpServer_name :: string
  oauthServer_port :: nat

record tokens =
  access_token :: string
  refresh_token :: "string option"

record client_info =
  client_id :: string
  client_secret :: "string option"

record client_metadata =
  client_name :: string
  client_uri :: string
  redirect_uris :: "string list"
  grant_types :: "string list"
  response_types :: "string list"
  token_endpoint_auth_method :: string
  cm_scope :: "string option"

record resource_metadata =
  resource :: "string option"
  authorization_servers :: "string list option"
  scopes_supported :: "string list option"

text \<open>
  The authorization-server metadata document, as parsed from a response body; the parsed
  value is taken to be a JSON object.
\<close>

record metadata =
  md_document :: string
  code_challenge_methods_supported :: "string list option"

record http_response =
  r_ok :: bool
  r_statusText :: string
  r_json :: "string + metadata"

text \<open>The parts of a WHATWG \<^verbatim>\<open>URL\<close> object the program reads.\<close>

record url =
  u_href :: string
  u_pathname :: string
  u_search :: string
  u_port :: "nat option"

datatype auth_result = AUTHORIZED | REDIRECT

datatype op = ListTools | CallTool string | ListResources | ReadResource string
  | ListPrompts | GetPrompt string

datatype response = ToolsResult "string list" | ResourcesResult "string list"
  | PromptsResult "string list" | CallResult string | ReadResult string | PromptResult string

datatype http_server = Listening | Closed

datatype promise = Pending | Resolved | Rejected fault

datatype mcp_client = Client

text \<open>
  What may happen while \<^verbatim>\<open>waitForAuthorizationCode\<close> is pending. \<open>Callback q\<close> is a request
  on the callback path that the HTTP server hands to the handler. \<^verbatim>\<open>close()\<close> stops the
  server from accepting new connections and leaves the connections that are open, so a
  request may be handed to the handler after the server was closed.
\<close>

datatype wait_event = Callback query | Poll | ServerTimer

section \<open>Observable actions\<close>

datatype event =
    EvRandomBytes
  | EvDiscoverPRM string
  | EvFetch string
  | EvRegister string
  | EvExchange string qparam string string
  | EvRefresh string string
  | EvStartAuthorization string "string option" string "string option"
  | EvListen nat
  | EvOpenBrowser string
  | EvRespond string
  | EvServerClose
  | EvMcpConnect
  | EvUpstream op
  | EvClientClose
  | EvStdioConnect
  | EvStdioClose
  | EvGate bool

section \<open>The collaborators outside the program\<close>

text \<open>
  Every call that leaves the program is answered by the environment. The first argument of
  a time-dependent answer is the number of actions observed so far, so that the same call
  may be answered differently each time it is made.
\<close>

record env =
  e_randomBytes :: "nat \<Rightarrow> string"
  e_newURL :: "string \<Rightarrow> url option"
  e_discoverPRM :: "nat \<Rightarrow> string \<Rightarrow> string + resource_metadata option"
  e_fetch :: "nat \<Rightarrow> string \<Rightarrow> string + http_response"
  e_registerClient :: "nat \<Rightarrow> string \<Rightarrow> client_metadata \<Rightarrow> string + client_info"
  e_exchangeAuthorization ::
    "nat \<Rightarrow> string \<Rightarrow> metadata \<Rightarrow> client_info \<Rightarrow> qparam \<Rightarrow> string \<Rightarrow> string \<Rightarrow> string + tokens"
  e_refreshAuthorization ::
    "nat \<Rightarrow> string \<Rightarrow> metadata \<Rightarrow> client_info \<Rightarrow> string \<Rightarrow> string + tokens"
  e_startAuthorization ::
    "nat \<Rightarrow> string \<Rightarrow> client_info \<Rightarrow> string option \<Rightarrow> string \<Rightarrow> string option
       \<Rightarrow> string + (url \<times> string)"
  e_listen :: "nat \<Rightarrow> nat \<Rightarrow> string option"
  e_wait :: "nat \<Rightarrow> wait_event list"
  e_mcpConnect :: "nat \<Rightarrow> string option"
  e_upstream :: "nat \<Rightarrow> op \<Rightarrow> string + response"
  e_clientClose :: "nat \<Rightarrow> string option"
  e_stdioConnect :: "nat \<Rightarrow> string option"
  e_stdioClose :: "nat \<Rightarrow> string option"

fun ext :: "string + 'a \<Rightarrow> fault + 'a" where
  "ext (Inl m) = Inl (External m)"
| "ext (Inr x) = Inr x"

fun ext_unit :: "string option \<Rightarrow> fault + unit" where
  "ext_unit (Some m) = Inl (External m)"
| "ext_unit None = Inr ()"

section \<open>The state of the process\<close>

text \<open>
  One proxy owns one OAuth client, which owns one provider, so the fields of the three
  objects are kept in one record: \<open>p_\<close> fields and \<open>oauthServer\<close>, \<open>authorizationCode\<close>
  belong to \<^verbatim>\<open>ProxyOAuthProvider\<close>; \<open>mcpClient\<close>, \<open>c_isConnected\<close>, \<open>resourceMetadata\<close> to
  \<^verbatim>\<open>McpOAuthClient\<close>; \<open>isConnected\<close> to \<^verbatim>\<open>McpStdioProxy\<close>. \<open>startPromise\<close> is the promise
  made by the latest \<^verbatim>\<open>startOAuthServer\<close> call, and \<open>trace\<close> the actions observed so far.
\<close>

record world =
  p_tokens :: "tokens option"
  p_clientInformation :: "client_info option"
  p_codeVerifier :: "string option"
  p_state :: "string option"
  oauthServer :: "http_server option"
  startPromise :: promise
  authorizationCode :: qparam
  mcpClient :: "mcp_client option"
  c_isConnected :: bool
  resourceMetadata :: "resource_metadata option"
  isConnected :: bool
  trace :: "event list"

definition emit :: "event \<Rightarrow> world \<Rightarrow> world" where
  "emit e w = w\<lparr>trace := trace w @ [e]\<rparr>"

definition now :: "world \<Rightarrow> nat" where
  "now w = length (trace w)"

text \<open>A promise settles once: later calls of \<^verbatim>\<open>resolve\<close> and \<^verbatim>\<open>reject\<close> do nothing.\<close>

fun resolve :: "promise \<Rightarrow> promise" where
  "resolve Pending = Resolved"
| "resolve p = p"

fun reject :: "fault \<Rightarrow> promise \<Rightarrow> promise" where
  "reject e Pending = Rejected e"
| "reject e p = p"

section \<open>ProxyOAuthProvider\<close>

definition clientMetadata :: "config \<Rightarrow> client_metadata" where
  "clientMetadata cfg =
     \<lparr>client_name = ''MCP OAuth Proxy Client'',
      client_uri = ''https://github.com/modelcontextprotocol/typescript-sdk'',
      redirect_uris = [redirectUri cfg],
      grant_types = [''authorization_code''],
      response_types = [''code''],
      token_endpoint_auth_method =
        (if clientSecret cfg \<noteq> [] then ''client_secret_post'' else ''none''),
      cm_scope = None\<rparr>"

definition state :: "env \<Rightarrow> world \<Rightarrow> string \<times> world" where
  "state E w =
     (if \<not> truthy_opt (p_state w)
      then (let r = e_randomBytes E (now w)
            in (r, (emit EvRandomBytes w)\<lparr>p_state := Some r\<rparr>))
      else (case p_state w of Some s \<Rightarrow> (s, w) | None \<Rightarrow> ([], w)))"

definition clientInformation :: "config \<Rightarrow> world \<Rightarrow> client_info option \<times> world" where
  "clientInformation cfg w =
     (case p_clientInformation w of
        None \<Rightarrow>
          (let ci = \<lparr>client_id = clientId cfg, client_secret = Some (clientSecret cfg)\<rparr>
           in (Some ci, w\<lparr>p_clientInformation := Some ci\<rparr>))
      | Some ci \<Rightarrow> (Some ci, w))"

definition saveClientInformation :: "client_info \<Rightarrow> world \<Rightarrow> world" where
  "saveClientInformation ci w = w\<lparr>p_clientInformation := Some ci\<rparr>"

definition saveTokens :: "tokens \<Rightarrow> world \<Rightarrow> world" where
  "saveTokens t w = w\<lparr>p_tokens := Some t\<rparr>"

definition saveCodeVerifier :: "string \<Rightarrow> world \<Rightarrow> world" where
  "saveCodeVerifier v w = w\<lparr>p_codeVerifier := Some v\<rparr>"

definition codeVerifier :: "world \<Rightarrow> fault + string" where
  "codeVerifier w =
     (case p_codeVerifier w of
        None \<Rightarrow> Inl (Error ''Code verifier not found'')
      | Some v \<Rightarrow> if v = [] then Inl (Error ''Code verifier not found'') else Inr v)"

definition getAuthorizationCode :: "world \<Rightarrow> qparam" where
  "getAuthorizationCode w = authorizationCode w"

definition clearAuthorizationCode :: "world \<Rightarrow> world" where
  "clearAuthorizationCode w = w\<lparr>authorizationCode := QAbsent\<rparr>"

subsection \<open>The local callback listener\<close>

text \<open>\<^verbatim>\<open>this.oauthServer?.close()\<close>.\<close>

definition server_close :: "world \<Rightarrow> world" where
  "server_close w =
     (case oauthServer w of
        None \<Rightarrow> w
      | Some s \<Rightarrow> emit EvServerClose (w\<lparr>oauthServer := Some Closed\<rparr>))"

definition res_send :: "string \<Rightarrow> world \<Rightarrow> world" where
  "res_send html w = emit (EvRespond html) w"

definition promise_reject :: "fault \<Rightarrow> world \<Rightarrow> world" where
  "promise_reject e w = w\<lparr>startPromise := reject e (startPromise w)\<rparr>"

definition promise_resolve :: "world \<Rightarrow> world" where
  "promise_resolve w = w\<lparr>startPromise := resolve (startPromise w)\<rparr>"

text \<open>The handler that \<^verbatim>\<open>startOAuthServer\<close> registers on the callback path.\<close>

definition callback_handler :: "query \<Rightarrow> world \<Rightarrow> world" where
  "callback_handler q w =
     (if truthy_q (q_error q) then
        promise_reject (Error (''OAuth error: '' @ js_string (q_error q)))
          (server_close
            (res_send (''<h1>OAuth Error</h1><p>'' @ js_string (q_error q) @ ''</p>'') w))
      else if \<not> strict_eq (q_state q) (p_state w) then
        promise_reject (Error ''Invalid OAuth state'')
          (server_close
            (res_send ''<h1>OAuth Error</h1><p>Invalid state parameter</p>'' w))
      else if \<not> truthy_q (q_code q) then
        promise_reject (Error ''No authorization code received'')
          (server_close
            (res_send ''<h1>OAuth Error</h1><p>No authorization code received</p>'' w))
      else
        promise_resolve
          ((server_close
             (res_send
               ''<h1>Authentication Successful</h1><p>You can close this window and return to your application.</p>''
               w))\<lparr>authorizationCode := q_code q\<rparr>))"

text \<open>The five-minute timer of \<^verbatim>\<open>startOAuthServer\<close>.\<close>

definition server_timer :: "world \<Rightarrow> world" where
  "server_timer w = promise_reject (Error ''OAuth authentication timed out'') (server_close w)"

text \<open>
  \<^verbatim>\<open>startOAuthServer\<close> makes a new promise. Express 5 runs the callback given to
  \<^verbatim>\<open>app.listen\<close> when the server listens and also, with the error, when the server fails to
  bind; the callback of the source ignores its argument and resolves the promise. The
  handler of the server's error event, registered after it, then rejects a promise that is
  settled. So the call returns normally in both cases, and after a failed bind the server
  does not listen.
\<close>

definition startOAuthServer :: "env \<Rightarrow> config \<Rightarrow> world \<Rightarrow> (fault + unit) \<times> world" where
  "startOAuthServer E cfg w =
     (case e_newURL E (redirectUri cfg) of
        None \<Rightarrow> (Inl (TypeError ''Invalid URL''), w\<lparr>startPromise := Rejected (TypeError ''Invalid URL'')\<rparr>)
      | Some redirectUrl \<Rightarrow>
          (let port = (case u_port redirectUrl of Some p \<Rightarrow> p | None \<Rightarrow> oauthServer_port cfg);
               w1 = emit (EvListen port) (w\<lparr>startPromise := Pending\<rparr>)
           in case e_listen E (now w) port of
                None \<Rightarrow> (Inr (), promise_resolve (w1\<lparr>oauthServer := Some Listening\<rparr>))
              | Some err \<Rightarrow>
                  (Inr (),
                   promise_reject (External err)
                     (promise_resolve (w1\<lparr>oauthServer := Some Closed\<rparr>)))))"

definition redirectToAuthorization :: "env \<Rightarrow> config \<Rightarrow> url \<Rightarrow> world \<Rightarrow> (fault + unit) \<times> world" where
  "redirectToAuthorization E cfg authorizationUrl w =
     (case startOAuthServer E cfg w of
        (Inl e, w1) \<Rightarrow> (Inl e, w1)
      | (Inr u, w1) \<Rightarrow> (Inr (), emit (EvOpenBrowser (u_href authorizationUrl)) w1))"

section \<open>Metadata discovery\<close>

definition discovery_error :: fault where
  "discovery_error = Error ''No OAuth metadata found at either endpoint''"

definition fetch :: "env \<Rightarrow> url \<Rightarrow> world \<Rightarrow> (fault + http_response) \<times> world" where
  "fetch E u w = (ext (e_fetch E (now w) (u_href u)), emit (EvFetch (u_href u)) w)"

definition discoverOAuthMetadata :: "env \<Rightarrow> string \<Rightarrow> world \<Rightarrow> (fault + metadata) \<times> world" where
  "discoverOAuthMetadata E serverUrl w =
     (case e_newURL E (serverUrl @ ''/.well-known/oauth-authorization-server'') of
        None \<Rightarrow> (Inl (TypeError ''Invalid URL''), w)
      | Some oauthMetadataUrl \<Rightarrow>
     (case e_newURL E (serverUrl @ ''/.well-known/openid-configuration'') of
        None \<Rightarrow> (Inl (TypeError ''Invalid URL''), w)
      | Some openIdMetadataUrl \<Rightarrow>
     (case fetch E oauthMetadataUrl w of
        (Inl e, w1) \<Rightarrow> (Inl discovery_error, w1)
      | (Inr oauthResponse, w1) \<Rightarrow>
          if r_ok oauthResponse then (ext (r_json oauthResponse), w1)
          else (case fetch E openIdMetadataUrl w1 of
                  (Inl e, w2) \<Rightarrow> (Inl discovery_error, w2)
                | (Inr openIdResponse, w2) \<Rightarrow>
                    if r_ok openIdResponse then (ext (r_json openIdResponse), w2)
                    else (Inl discovery_error, w2)))))"

section \<open>The authorization flow\<close>

text \<open>The SDK calls, each observed as one action and answered by the environment.\<close>

definition discoverOAuthProtectedResourceMetadata ::
    "env \<Rightarrow> string \<Rightarrow> world \<Rightarrow> (fault + resource_metadata option) \<times> world" where
  "discoverOAuthProtectedResourceMetadata E serverUrl w =
     (ext (e_discoverPRM E (now w) serverUrl), emit (EvDiscoverPRM serverUrl) w)"

definition registerClient ::
    "env \<Rightarrow> string \<Rightarrow> client_metadata \<Rightarrow> world \<Rightarrow> (fault + client_info) \<times> world" where
  "registerClient E asUrl cm w =
     (ext (e_registerClient E (now w) asUrl cm), emit (EvRegister asUrl) w)"

definition exchangeAuthorization ::
    "env \<Rightarrow> string \<Rightarrow> metadata \<Rightarrow> client_info \<Rightarrow> qparam \<Rightarrow> string \<Rightarrow> string \<Rightarrow> world
       \<Rightarrow> (fault + tokens) \<times> world" where
  "exchangeAuthorization E asUrl md ci code verifier redirect w =
     (ext (e_exchangeAuthorization E (now w) asUrl md ci code verifier redirect),
      emit (EvExchange asUrl code verifier redirect) w)"

definition refreshAuthorization ::
    "env \<Rightarrow> string \<Rightarrow> metadata \<Rightarrow> client_info \<Rightarrow> string \<Rightarrow> world \<Rightarrow> (fault + tokens) \<times> world" where
  "refreshAuthorization E asUrl md ci refreshToken w =
     (ext (e_refreshAuthorization E (now w) asUrl md ci refreshToken),
      emit (EvRefresh asUrl refreshToken) w)"

definition startAuthorization ::
    "env \<Rightarrow> string \<Rightarrow> client_info \<Rightarrow> string option \<Rightarrow> string \<Rightarrow> string option \<Rightarrow> world
       \<Rightarrow> (fault + url \<times> string) \<times> world" where
  "startAuthorization E asUrl ci st redirect sc w =
     (ext (e_startAuthorization E (now w) asUrl ci st redirect sc),
      emit (EvStartAuthorization asUrl st redirect sc) w)"

record auth_options =
  ao_serverUrl :: string
  ao_scope :: "string option"
  ao_authorizationCode :: qparam

text \<open>Lines 268 to 286 of \<^verbatim>\<open>customAuth\<close>: client registration if needed.\<close>

definition customAuth_client ::
    "env \<Rightarrow> config \<Rightarrow> auth_options \<Rightarrow> string \<Rightarrow> world \<Rightarrow> (fault + client_info) \<times> world" where
  "customAuth_client E cfg options authorizationServerUrl w =
     (case clientInformation cfg w of
        (Some ci, w1) \<Rightarrow> (Inr ci, w1)
      | (None, w1) \<Rightarrow>
          if ao_authorizationCode options \<noteq> QAbsent then
            (Inl (Error ''Existing OAuth client information is required when exchanging an authorization code''), w1)
          else
            (case registerClient E authorizationServerUrl (clientMetadata cfg) w1 of
               (Inl e, w2) \<Rightarrow> (Inl e, w2)
             | (Inr fullInformation, w2) \<Rightarrow>
                 (Inr fullInformation, saveClientInformation fullInformation w2)))"

text \<open>Lines 289 to 302: the exchange of the authorization code for tokens.\<close>

definition customAuth_exchange ::
    "env \<Rightarrow> config \<Rightarrow> auth_options \<Rightarrow> string \<Rightarrow> metadata \<Rightarrow> client_info \<Rightarrow> world
       \<Rightarrow> (fault + auth_result) \<times> world" where
  "customAuth_exchange E cfg options authorizationServerUrl md ci w =
     (case codeVerifier w of
        Inl e \<Rightarrow> (Inl e, w)
      | Inr verifier \<Rightarrow>
          (case exchangeAuthorization E authorizationServerUrl md ci
                  (ao_authorizationCode options) verifier (redirectUri cfg) w of
             (Inl e, w1) \<Rightarrow> (Inl e, w1)
           | (Inr t, w1) \<Rightarrow> (Inr AUTHORIZED, saveTokens t w1)))"

text \<open>Lines 343 to 355: the authorization URL is moved under the authorization server.\<close>

definition adjust_url :: "env \<Rightarrow> string \<Rightarrow> url \<Rightarrow> url option" where
  "adjust_url E authorizationServerUrl authorizationUrl =
     (if \<not> prefix authorizationServerUrl (u_href authorizationUrl) then
        e_newURL E
          ((if \<not> suffix ''/oauth2/v2.0'' authorizationServerUrl
               \<and> suffix ''/v2.0'' authorizationServerUrl
            then js_replace ''/v2.0'' ''/oauth2/v2.0'' authorizationServerUrl
            else authorizationServerUrl)
           @ ''/authorize'' @ u_search authorizationUrl)
      else Some authorizationUrl)"

text \<open>Lines 323 to 359: the start of a new authorization.\<close>

definition customAuth_authorize ::
    "env \<Rightarrow> config \<Rightarrow> auth_options \<Rightarrow> string \<Rightarrow> client_info \<Rightarrow> world
       \<Rightarrow> (fault + auth_result) \<times> world" where
  "customAuth_authorize E cfg options authorizationServerUrl ci w =
     (case state E w of
        (st, w1) \<Rightarrow>
     (case startAuthorization E authorizationServerUrl ci (Some st) (redirectUri cfg)
             (js_or (ao_scope options) (cm_scope (clientMetadata cfg))) w1 of
        (Inl e, w2) \<Rightarrow> (Inl e, w2)
      | (Inr (authorizationUrl, verifier), w2) \<Rightarrow>
          (case adjust_url E authorizationServerUrl authorizationUrl of
             None \<Rightarrow> (Inl (TypeError ''Invalid URL''), w2)
           | Some newAuthUrl \<Rightarrow>
               (case redirectToAuthorization E cfg newAuthUrl (saveCodeVerifier verifier w2) of
                  (Inl e, w3) \<Rightarrow> (Inl e, w3)
                | (Inr u, w3) \<Rightarrow> (Inr REDIRECT, w3)))))"

text \<open>Lines 304 to 321: the refresh of a stored token, tried first.\<close>

definition customAuth_tokens ::
    "env \<Rightarrow> config \<Rightarrow> auth_options \<Rightarrow> string \<Rightarrow> metadata \<Rightarrow> client_info \<Rightarrow> world
       \<Rightarrow> (fault + auth_result) \<times> world" where
  "customAuth_tokens E cfg options authorizationServerUrl md ci w =
     (case p_tokens w of
        None \<Rightarrow> customAuth_authorize E cfg options authorizationServerUrl ci w
      | Some t \<Rightarrow>
          if truthy_opt (refresh_token t) then
            (case refresh_token t of
               None \<Rightarrow> customAuth_authorize E cfg options authorizationServerUrl ci w
             | Some rt \<Rightarrow>
                 (case refreshAuthorization E authorizationServerUrl md ci rt w of
                    (Inr newTokens, w1) \<Rightarrow> (Inr AUTHORIZED, saveTokens newTokens w1)
                  | (Inl e, w1) \<Rightarrow> customAuth_authorize E cfg options authorizationServerUrl ci w1))
          else customAuth_authorize E cfg options authorizationServerUrl ci w)"

text \<open>Lines 252 to 262: the authorization server named by the resource, or the resource itself.\<close>

definition select_authorization_server ::
    "string \<Rightarrow> fault + resource_metadata option \<Rightarrow> string" where
  "select_authorization_server serverUrl r =
     (case r of
        Inr (Some rm) \<Rightarrow>
          (case authorization_servers rm of
             Some (a # as) \<Rightarrow> a
           | Some [] \<Rightarrow> serverUrl
           | None \<Rightarrow> serverUrl)
      | Inr None \<Rightarrow> serverUrl
      | Inl e \<Rightarrow> serverUrl)"

definition customAuth ::
    "env \<Rightarrow> config \<Rightarrow> auth_options \<Rightarrow> world \<Rightarrow> (fault + auth_result) \<times> world" where
  "customAuth E cfg options w =
     (case discoverOAuthProtectedResourceMetadata E (ao_serverUrl options) w of
        (r, w1) \<Rightarrow>
     (case discoverOAuthMetadata E (select_authorization_server (ao_serverUrl options) r) w1 of
        (Inl e, w2) \<Rightarrow> (Inl e, w2)
      | (Inr md, w2) \<Rightarrow>
     (case customAuth_client E cfg options
             (select_authorization_server (ao_serverUrl options) r) w2 of
        (Inl e, w3) \<Rightarrow> (Inl e, w3)
      | (Inr ci, w3) \<Rightarrow>
          if ao_authorizationCode options \<noteq> QAbsent then
            customAuth_exchange E cfg options
              (select_authorization_server (ao_serverUrl options) r) md ci w3
          else
            customAuth_tokens E cfg options
              (select_authorization_server (ao_serverUrl options) r) md ci w3)))"

section \<open>McpOAuthClient\<close>

text \<open>
  \<^verbatim>\<open>waitForAuthorizationCode\<close>: the events that arrive while it is pending, in their order,
  and then its own five-minute timer.
\<close>

fun wait_loop :: "wait_event list \<Rightarrow> world \<Rightarrow> (fault + unit) \<times> world" where
  "wait_loop [] w = (Inl (Error ''Authorization code timeout''), w)"
| "wait_loop (Callback q # evs) w = wait_loop evs (callback_handler q w)"
| "wait_loop (ServerTimer # evs) w = wait_loop evs (server_timer w)"
| "wait_loop (Poll # evs) w =
     (if truthy_q (getAuthorizationCode w) then (Inr (), w) else wait_loop evs w)"

definition waitForAuthorizationCode :: "env \<Rightarrow> world \<Rightarrow> (fault + unit) \<times> world" where
  "waitForAuthorizationCode E w = wait_loop (e_wait E (now w)) w"

definition requestedScopes :: "config \<Rightarrow> resource_metadata \<Rightarrow> string list" where
  "requestedScopes cfg rm =
     (if length (scopes cfg) > 0 then scopes cfg
      else (case scopes_supported rm of Some ss \<Rightarrow> ss | None \<Rightarrow> []))"

definition blank_resource :: "resource_metadata \<Rightarrow> resource_metadata" where
  "blank_resource rm =
     (case resource rm of
        Some r \<Rightarrow> if r \<noteq> [] then rm\<lparr>resource := Some []\<rparr> else rm
      | None \<Rightarrow> rm)"

definition connectToMcpServer :: "env \<Rightarrow> config \<Rightarrow> world \<Rightarrow> (fault + unit) \<times> world" where
  "connectToMcpServer E cfg w =
     (case e_newURL E (mcpServer_url cfg) of
        None \<Rightarrow> (Inl (TypeError ''Invalid URL''), w)
      | Some u \<Rightarrow>
          (ext_unit (e_mcpConnect E (now w)), emit EvMcpConnect (w\<lparr>mcpClient := Some Client\<rparr>)))"

text \<open>Lines 413 to 432 of \<^verbatim>\<open>connect\<close>: the interactive case.\<close>

definition connect_redirect ::
    "env \<Rightarrow> config \<Rightarrow> string \<Rightarrow> world \<Rightarrow> (fault + auth_result) \<times> world" where
  "connect_redirect E cfg sc w =
     (case waitForAuthorizationCode E w of
        (Inl e, w1) \<Rightarrow> (Inl e, w1)
      | (Inr u, w1) \<Rightarrow>
          if \<not> truthy_q (getAuthorizationCode w1) then
            (Inl (Error ''No authorization code received''), w1)
          else
            (case customAuth E cfg
                    \<lparr>ao_serverUrl = mcpServer_url cfg, ao_scope = Some sc,
                     ao_authorizationCode = getAuthorizationCode w1\<rparr> w1 of
               (Inl e, w2) \<Rightarrow> (Inl e, w2)
             | (Inr r, w2) \<Rightarrow> (Inr r, clearAuthorizationCode w2)))"

text \<open>Lines 434 to 442: after the authorization.\<close>

definition connect_finish ::
    "env \<Rightarrow> config \<Rightarrow> auth_result \<Rightarrow> world \<Rightarrow> (fault + unit) \<times> world" where
  "connect_finish E cfg authResult w =
     (if authResult \<noteq> AUTHORIZED then (Inl (Error ''OAuth authorization failed''), w)
      else (case connectToMcpServer E cfg w of
              (Inl e, w1) \<Rightarrow> (Inl e, w1)
            | (Inr u, w1) \<Rightarrow> (Inr (), w1\<lparr>c_isConnected := True\<rparr>)))"

definition connect :: "env \<Rightarrow> config \<Rightarrow> world \<Rightarrow> (fault + unit) \<times> world" where
  "connect E cfg w =
     (case discoverOAuthProtectedResourceMetadata E (mcpServer_url cfg) w of
        (Inl e, w1) \<Rightarrow> (Inl e, w1)
      | (Inr None, w1) \<Rightarrow>
          (Inl (Error ''No OAuth protected resource metadata found''),
           w1\<lparr>resourceMetadata := None\<rparr>)
      | (Inr (Some rm), w1) \<Rightarrow>
          (case customAuth E cfg
                  \<lparr>ao_serverUrl = mcpServer_url cfg,
                   ao_scope = Some (join '' '' (requestedScopes cfg (blank_resource rm))),
                   ao_authorizationCode = QAbsent\<rparr>
                  (w1\<lparr>resourceMetadata := Some (blank_resource rm)\<rparr>) of
             (Inl e, w2) \<Rightarrow> (Inl e, w2)
           | (Inr REDIRECT, w2) \<Rightarrow>
               (case connect_redirect E cfg
                       (join '' '' (requestedScopes cfg (blank_resource rm))) w2 of
                  (Inl e, w3) \<Rightarrow> (Inl e, w3)
                | (Inr authResult, w3) \<Rightarrow> connect_finish E cfg authResult w3)
           | (Inr AUTHORIZED, w2) \<Rightarrow> connect_finish E cfg AUTHORIZED w2))"

definition disconnect :: "env \<Rightarrow> world \<Rightarrow> (fault + unit) \<times> world" where
  "disconnect E w =
     (case mcpClient w of
        Some c \<Rightarrow>
          (case e_clientClose E (now w) of
             Some m \<Rightarrow> (Inl (External m), emit EvClientClose w)
           | None \<Rightarrow>
               (Inr (), (emit EvClientClose w)\<lparr>mcpClient := None, c_isConnected := False\<rparr>))
      | None \<Rightarrow> (Inr (), w\<lparr>c_isConnected := False\<rparr>))"

definition client_connected :: "world \<Rightarrow> bool" where
  "client_connected w = (c_isConnected w \<and> mcpClient w \<noteq> None)"

text \<open>
  The six delegating methods have one body: fail without a client object, otherwise
  call the upstream client and pass on what it answers.
\<close>

definition delegate :: "env \<Rightarrow> op \<Rightarrow> world \<Rightarrow> (fault + response) \<times> world" where
  "delegate E rq w =
     (case mcpClient w of
        None \<Rightarrow> (Inl (Error ''MCP client not connected''), w)
      | Some c \<Rightarrow> (ext (e_upstream E (now w) rq), emit (EvUpstream rq) w))"

definition listTools :: "env \<Rightarrow> world \<Rightarrow> (fault + response) \<times> world" where
  "listTools E w = delegate E ListTools w"

definition callTool :: "env \<Rightarrow> string \<Rightarrow> world \<Rightarrow> (fault + response) \<times> world" where
  "callTool E params w = delegate E (CallTool params) w"

definition listResources :: "env \<Rightarrow> world \<Rightarrow> (fault + response) \<times> world" where
  "listResources E w = delegate E ListResources w"

definition readResource :: "env \<Rightarrow> string \<Rightarrow> world \<Rightarrow> (fault + response) \<times> world" where
  "readResource E params w = delegate E (ReadResource params) w"

definition listPrompts :: "env \<Rightarrow> world \<Rightarrow> (fault + response) \<times> world" where
  "listPrompts E w = delegate E ListPrompts w"

definition getPrompt :: "env \<Rightarrow> string \<Rightarrow> world \<Rightarrow> (fault + response) \<times> world" where
  "getPrompt E params w = delegate E (GetPrompt params) w"

section \<open>McpStdioProxy\<close>

definition not_connected :: fault where
  "not_connected =
     Error ''Proxy not connected to MCP server. Connection may have failed during startup.''"

definition ensureConnected :: "world \<Rightarrow> fault + unit" where
  "ensureConnected w = (if \<not> isConnected w then Inl not_connected else Inr ())"

text \<open>The handlers set by \<^verbatim>\<open>setupProxyHandlers\<close>, one per request of the inbound protocol.\<close>

definition handle :: "env \<Rightarrow> op \<Rightarrow> world \<Rightarrow> (fault + response) \<times> world" where
  "handle E rq w =
     (case rq of
        ListTools \<Rightarrow>
          (case ensureConnected w of
             Inl e \<Rightarrow> (Inr (ToolsResult []), w)
           | Inr u \<Rightarrow>
               (case listTools E w of
                  (Inl e, w1) \<Rightarrow> (Inr (ToolsResult []), w1)
                | (Inr tools, w1) \<Rightarrow> (Inr tools, w1)))
      | CallTool params \<Rightarrow>
          (case ensureConnected w of
             Inl e \<Rightarrow> (Inl e, w)
           | Inr u \<Rightarrow>
               (case callTool E params w of
                  (Inl e, w1) \<Rightarrow> (Inl e, w1)
                | (Inr result, w1) \<Rightarrow> (Inr result, w1)))
      | ListResources \<Rightarrow>
          (case listResources E w of
             (Inl e, w1) \<Rightarrow> (Inr (ResourcesResult []), w1)
           | (Inr resources, w1) \<Rightarrow> (Inr resources, w1))
      | ReadResource params \<Rightarrow>
          (case readResource E params w of
             (Inl e, w1) \<Rightarrow> (Inl e, w1)
           | (Inr result, w1) \<Rightarrow> (Inr result, w1))
      | ListPrompts \<Rightarrow>
          (case listPrompts E w of
             (Inl e, w1) \<Rightarrow> (Inr (PromptsResult []), w1)
           | (Inr prompts, w1) \<Rightarrow> (Inr prompts, w1))
      | GetPrompt params \<Rightarrow>
          (case getPrompt E params w of
             (Inl e, w1) \<Rightarrow> (Inl e, w1)
           | (Inr result, w1) \<Rightarrow> (Inr result, w1)))"

text \<open>Every write of the proxy's \<^verbatim>\<open>isConnected\<close>, the connection gate, is an observed action.\<close>

definition set_gate :: "bool \<Rightarrow> world \<Rightarrow> world" where
  "set_gate b w = emit (EvGate b) (w\<lparr>isConnected := b\<rparr>)"

definition connected :: "world \<Rightarrow> bool" where
  "connected w = (isConnected w \<and> client_connected w)"

definition start :: "env \<Rightarrow> config \<Rightarrow> world \<Rightarrow> (fault + unit) \<times> world" where
  "start E cfg w =
     (case connect E cfg w of
        (Inl e, w1) \<Rightarrow> (Inl e, set_gate False w1)
      | (Inr u, w1) \<Rightarrow>
          (case e_stdioConnect E (now (set_gate True w1)) of
             Some m \<Rightarrow> (Inl (External m), set_gate False (emit EvStdioConnect (set_gate True w1)))
           | None \<Rightarrow> (Inr (), emit EvStdioConnect (set_gate True w1))))"

definition stop :: "env \<Rightarrow> world \<Rightarrow> (fault + unit) \<times> world" where
  "stop E w =
     (case disconnect E (set_gate False w) of
        (Inl e, w1) \<Rightarrow> (Inr (), w1)
      | (Inr u, w1) \<Rightarrow>
          (case e_stdioClose E (now w1) of
             Some m \<Rightarrow> (Inr (), emit EvStdioClose w1)
           | None \<Rightarrow> (Inr (), emit EvStdioClose w1)))"

text \<open>The process as the constructors leave it.\<close>

definition initial :: world where
  "initial =
     \<lparr>p_tokens = None, p_clientInformation = None, p_codeVerifier = None, p_state = None,
      oauthServer = None, startPromise = Pending, authorizationCode = QAbsent,
      mcpClient = None, c_isConnected = False, resourceMetadata = None,
      isConnected = False, trace = []\<rparr>"

section \<open>Notions used by the properties\<close>

text \<open>The actions a function adds to the trace.\<close>

definition new_events :: "world \<Rightarrow> world \<Rightarrow> event list" where
  "new_events w w' = drop (length (trace w)) (trace w')"

subsection \<open>Metadata discovery as the specification words it\<close>





subsection \<open>A concrete environment\<close>

definition url0 :: "string \<Rightarrow> url" where
  "url0 s = \<lparr>u_href = s, u_pathname = ''/oauth/callback'', u_search = ''?response_type=code'',
             u_port = Some 3000\<rparr>"

definition doc0 :: "string \<Rightarrow> metadata" where
  "doc0 s = \<lparr>md_document = s, code_challenge_methods_supported = Some [''S256'']\<rparr>"

definition rm0 :: resource_metadata where
  "rm0 = \<lparr>resource = Some ''https://mcp.example/sse'',
          authorization_servers = Some [''https://idp.example/tenant''],
          scopes_supported = Some [''read'', ''write'']\<rparr>"

definition cfg0 :: config where
  "cfg0 = \<lparr>clientId = ''client-1'', clientSecret = [],
           redirectUri = ''http://localhost:3000/oauth/callback'', scopes = [],
           mcpServer_url = ''https://mcp.example/sse'', mcpServer_name = ''MCP Server'',
           oauthServer_port = 3000\<rparr>"

text \<open>
  Every collaborator answers well: discovery finds \<open>rm0\<close>, both well-known endpoints answer
  200 with a JSON document, the listener binds, and the browser comes back with the code
  \<open>abc123\<close> and the state that was sent.
\<close>

definition env0 :: env where
  "env0 =
     \<lparr>e_randomBytes = (\<lambda>t. ''c0ffee''),
      e_newURL = (\<lambda>s. if s = [] then None else Some (url0 s)),
      e_discoverPRM = (\<lambda>t s. Inr (Some rm0)),
      e_fetch = (\<lambda>t s. Inr \<lparr>r_ok = True, r_statusText = ''OK'', r_json = Inr (doc0 s)\<rparr>),
      e_registerClient = (\<lambda>t s cm. Inr \<lparr>client_id = ''registered'', client_secret = None\<rparr>),
      e_exchangeAuthorization =
        (\<lambda>t s md ci code v r. Inr \<lparr>access_token = ''at-1'', refresh_token = Some ''rt-1''\<rparr>),
      e_refreshAuthorization =
        (\<lambda>t s md ci rt. Inr \<lparr>access_token = ''at-2'', refresh_token = Some rt\<rparr>),
      e_startAuthorization =
        (\<lambda>t s ci st r sc. Inr (url0 ''https://idp.example/authorize'', ''verifier-1'')),
      e_listen = (\<lambda>t p. None),
      e_wait =
        (\<lambda>t. [Callback \<lparr>q_code = QStr ''abc123'', q_state = QStr ''c0ffee'', q_error = QAbsent\<rparr>,
              Poll]),
      e_mcpConnect = (\<lambda>t. None),
      e_upstream = (\<lambda>t rq. Inr (ReadResult ''upstream data'')),
      e_clientClose = (\<lambda>t. None),
      e_stdioConnect = (\<lambda>t. None),
      e_stdioClose = (\<lambda>t. None)\<rparr>"



subsection \<open>Classes of actions\<close>

text \<open>
  \<open>extends P w w'\<close>: the trace of \<open>w'\<close> is the trace of \<open>w\<close> followed by actions that all
  satisfy \<open>P\<close>.
\<close>

definition extends :: "(event \<Rightarrow> bool) \<Rightarrow> world \<Rightarrow> world \<Rightarrow> bool" where
  "extends P w w' = (prefix (trace w) (trace w') \<and> list_all P (new_events w w'))"

fun is_register :: "event \<Rightarrow> bool" where
  "is_register (EvRegister a) = True"
| "is_register e = False"

fun is_exchange :: "event \<Rightarrow> bool" where
  "is_exchange (EvExchange a c v r) = True"
| "is_exchange e = False"



fun is_respond :: "event \<Rightarrow> bool" where
  "is_respond (EvRespond h) = True"
| "is_respond e = False"

fun is_upstream :: "event \<Rightarrow> bool" where
  "is_upstream (EvUpstream rq) = True"
| "is_upstream e = False"

text \<open>The actions of the callback listener.\<close>

fun listener_event :: "event \<Rightarrow> bool" where
  "listener_event (EvRespond h) = True"
| "listener_event EvServerClose = True"
| "listener_event e = False"

text \<open>
  The actions of \<^verbatim>\<open>customAuth\<close> when it is given the scope \<open>sc\<close>: no registration, and
  every authorization URL is built with \<open>sc\<close>.
\<close>

fun auth_event :: "string option \<Rightarrow> event \<Rightarrow> bool" where
  "auth_event sc (EvDiscoverPRM a) = True"
| "auth_event sc (EvFetch a) = True"
| "auth_event sc (EvExchange a c v r) = True"
| "auth_event sc (EvRefresh a t) = True"
| "auth_event sc EvRandomBytes = True"
| "auth_event sc (EvStartAuthorization a st r sc') = (sc' = sc)"
| "auth_event sc (EvListen p) = True"
| "auth_event sc (EvOpenBrowser u) = True"
| "auth_event sc e = False"

fun connect_event :: "string option \<Rightarrow> event \<Rightarrow> bool" where
  "connect_event sc (EvRespond h) = True"
| "connect_event sc EvServerClose = True"
| "connect_event sc EvMcpConnect = True"
| "connect_event sc e = auth_event sc e"

subsection \<open>Concrete runs\<close>

definition opts0 :: auth_options where
  "opts0 = \<lparr>ao_serverUrl = ''https://mcp.example/sse'', ao_scope = Some ''read write'',
            ao_authorizationCode = QAbsent\<rparr>"

text \<open>The process when \<^verbatim>\<open>customAuth\<close> has sent the browser away and waits for the callback.\<close>

definition awaiting :: "env \<Rightarrow> world" where
  "awaiting E = snd (customAuth E cfg0 opts0 initial)"

definition q_malformed :: query where
  "q_malformed = \<lparr>q_code = QAbsent, q_state = QAbsent, q_error = QAbsent\<rparr>"

definition q_forged :: query where
  "q_forged = \<lparr>q_code = QStr ''evil'', q_state = QStr ''forged'', q_error = QAbsent\<rparr>"

definition q_good :: query where
  "q_good = \<lparr>q_code = QStr ''abc123'', q_state = QStr ''c0ffee'', q_error = QAbsent\<rparr>"

definition q_denied :: query where
  "q_denied = \<lparr>q_code = QAbsent, q_state = QStr ''c0ffee'', q_error = QStr ''access_denied''\<rparr>"

text \<open>
  The callback comes with a forged state; a well-formed one follows on the connection that
  is still open.
\<close>

definition env_mismatch :: env where
  "env_mismatch = env0\<lparr>e_wait := (\<lambda>t. [Poll, Callback q_forged, Poll, Callback q_good, Poll])\<rparr>"

text \<open>The authorization server sends the browser back with \<^verbatim>\<open>error=access_denied\<close>.\<close>

definition env_denied :: env where
  "env_denied = env0\<lparr>e_wait := (\<lambda>t. [Poll, Callback q_denied, Poll, ServerTimer])\<rparr>"

text \<open>
  The scope that \<^verbatim>\<open>connect\<close> asks for: the configured scopes, else the scopes the resource
  metadata advertises, joined by single spaces, and no scope at all when that string is
  empty.
\<close>

definition connect_scope :: "env \<Rightarrow> config \<Rightarrow> world \<Rightarrow> string option" where
  "connect_scope E cfg w =
     (case e_discoverPRM E (now w) (mcpServer_url cfg) of
        Inr (Some rm) \<Rightarrow> js_or (Some (join '' '' (requestedScopes cfg (blank_resource rm)))) None
      | Inr None \<Rightarrow> None
      | Inl m \<Rightarrow> None)"

text \<open>The scope an authorization URL is built with.\<close>

fun scope_is :: "string option \<Rightarrow> event \<Rightarrow> bool" where
  "scope_is sc (EvStartAuthorization a st r sc') = (sc' = sc)"
| "scope_is sc e = True"

fun is_start :: "event \<Rightarrow> bool" where
  "is_start (EvStartAuthorization a st r sc) = True"
| "is_start e = False"

text \<open>A list of scopes as a scope parameter: absent when the joined string is empty.\<close>

definition scope_parameter :: "string list \<Rightarrow> string option" where
  "scope_parameter ss = (if join '' '' ss = [] then None else Some (join '' '' ss))"

text \<open>
  A configuration built by hand, as a caller of the exported \<^verbatim>\<open>McpOAuthClient\<close> may, with no
  client id and no secret.
\<close>

definition cfg_nocreds :: config where
  "cfg_nocreds = cfg0\<lparr>clientId := [], clientSecret := []\<rparr>"

text \<open>The resource metadata advertises an empty list of scopes.\<close>

definition env_noscopes :: env where
  "env_noscopes = env0\<lparr>e_discoverPRM := (\<lambda>t s. Inr (Some (rm0\<lparr>scopes_supported := Some []\<rparr>)))\<rparr>"

text \<open>Closing the upstream client fails.\<close>

definition env_close_fails :: env where
  "env_close_fails = env0\<lparr>e_clientClose := (\<lambda>t. Some ''socket hang up'')\<rparr>"

text \<open>The proxy after a successful start, and after a stop whose upstream close failed.\<close>

definition w_started :: world where
  "w_started = snd (start env0 cfg0 initial)"

definition w_stopped :: world where
  "w_stopped = snd (stop env_close_fails w_started)"







text \<open>The first request carries neither code nor error; a well-formed one follows.\<close>

definition env_two_requests :: env where
  "env_two_requests = env0\<lparr>e_wait := (\<lambda>t. [Callback q_malformed, Callback q_good, Poll])\<rparr>"

text \<open>The token endpoint refuses the code; the attempt fails and leaves the code stored.\<close>

definition env_exchange_fails :: env where
  "env_exchange_fails =
     env0\<lparr>e_exchangeAuthorization := (\<lambda>t s md ci code v r. Inl ''invalid_grant'')\<rparr>"

definition w_stale :: world where
  "w_stale = snd (connect env_exchange_fails cfg0 initial)"

text \<open>Only a callback with a forged state arrives.\<close>

definition env_forged_only :: env where
  "env_forged_only = env0\<lparr>e_wait := (\<lambda>t. [Callback q_forged, Poll])\<rparr>"







section \<open>Basic facts\<close>

lemma trace_emit [simp]: "trace (emit e w) = trace w @ [e]"
  by (simp add: emit_def)

lemma now_emit [simp]: "now (emit e w) = Suc (now w)"
  by (simp add: emit_def now_def)

lemma emit_fields [simp]:
  "p_tokens (emit e w) = p_tokens w"
  "p_clientInformation (emit e w) = p_clientInformation w"
  "p_codeVerifier (emit e w) = p_codeVerifier w"
  "p_state (emit e w) = p_state w"
  "oauthServer (emit e w) = oauthServer w"
  "startPromise (emit e w) = startPromise w"
  "authorizationCode (emit e w) = authorizationCode w"
  "mcpClient (emit e w) = mcpClient w"
  "c_isConnected (emit e w) = c_isConnected w"
  "resourceMetadata (emit e w) = resourceMetadata w"
  "isConnected (emit e w) = isConnected w"
  by (simp_all add: emit_def)

lemma extends_iff: "extends P w w' \<longleftrightarrow> (\<exists>es. trace w' = trace w @ es \<and> list_all P es)"
  by (auto simp: extends_def new_events_def prefix_def)

lemma extends_refl [simp]: "extends P w w"
  by (simp add: extends_iff)

lemma extends_trans: "extends P w w' \<Longrightarrow> extends P w' w'' \<Longrightarrow> extends P w w''"
  by (auto simp: extends_iff)

lemma extends_mono: "extends P w w' \<Longrightarrow> (\<And>e. P e \<Longrightarrow> Q e) \<Longrightarrow> extends Q w w'"
  by (auto simp: extends_iff list_all_iff)

lemma extends_emit: "P e \<Longrightarrow> extends P w w' \<Longrightarrow> extends P w (emit e w')"
  by (auto simp: extends_iff)

lemma extends_same_trace: "trace w'' = trace w' \<Longrightarrow> extends P w w' \<Longrightarrow> extends P w w''"
  by (simp add: extends_iff)

lemma extends_new_events: "extends P w w' \<Longrightarrow> list_all P (new_events w w')"
  by (simp add: extends_def)

lemma extends_now: "extends P w w' \<Longrightarrow> now w \<le> now w'"
  by (auto simp: extends_iff now_def)

lemma new_events_append: "trace w' = trace w @ es \<Longrightarrow> new_events w w' = es"
  by (simp add: new_events_def)

lemmas model_defs =
  customAuth_def customAuth_client_def customAuth_exchange_def customAuth_tokens_def
  customAuth_authorize_def adjust_url_def select_authorization_server_def
  discoverOAuthProtectedResourceMetadata_def discoverOAuthMetadata_def fetch_def
  registerClient_def exchangeAuthorization_def refreshAuthorization_def startAuthorization_def
  redirectToAuthorization_def startOAuthServer_def state_def clientInformation_def
  saveClientInformation_def saveTokens_def saveCodeVerifier_def codeVerifier_def
  clearAuthorizationCode_def clientMetadata_def
  connect_def connect_redirect_def connect_finish_def connectToMcpServer_def
  waitForAuthorizationCode_def requestedScopes_def blank_resource_def
  start_def stop_def disconnect_def set_gate_def

lemmas run_defs =
  env0_def cfg0_def rm0_def url0_def doc0_def opts0_def initial_def emit_def now_def Let_def
  awaiting_def q_malformed_def q_forged_def q_good_def q_denied_def

lemma ext_Inr [simp]: "(ext x = Inr y) = (x = Inr y)"
  by (cases x) simp_all

lemma ext_Inl: "(ext x = Inl e) = (\<exists>m. x = Inl m \<and> e = External m)"
  by (cases x) auto

section \<open>The callback listener\<close>

lemmas listener_defs =
  callback_handler_def server_close_def res_send_def promise_reject_def promise_resolve_def
  server_timer_def getAuthorizationCode_def

lemma callback_handler_closes:
  "oauthServer w = Some Listening \<Longrightarrow> oauthServer (callback_handler q w) = Some Closed"
  by (simp add: listener_defs)

lemma callback_handler_events:
  "oauthServer w = Some Listening \<Longrightarrow>
   \<exists>html. trace (callback_handler q w) = trace w @ [EvRespond html, EvServerClose]"
  by (simp add: listener_defs)

lemma callback_handler_fields [simp]:
  "p_state (callback_handler q w) = p_state w"
  "isConnected (callback_handler q w) = isConnected w"
  by (simp_all add: listener_defs split: option.splits)

lemma server_timer_fields [simp]:
  "p_state (server_timer w) = p_state w"
  "authorizationCode (server_timer w) = authorizationCode w"
  "isConnected (server_timer w) = isConnected w"
  by (simp_all add: listener_defs split: option.splits)

lemma callback_handler_extends: "extends listener_event w (callback_handler q w)"
  by (simp add: listener_defs extends_iff split: option.splits)

lemma server_timer_extends: "extends listener_event w (server_timer w)"
  by (simp add: listener_defs extends_iff split: option.splits)

lemma wait_loop_extends: "extends listener_event w (snd (wait_loop evs w))"
proof (induction evs w rule: wait_loop.induct)
  case (1 w)
  show ?case by simp
next
  case (2 q evs w)
  from extends_trans [OF callback_handler_extends "2.IH"] show ?case
    by simp
next
  case (3 evs w)
  from extends_trans [OF server_timer_extends "3.IH"] show ?case
    by simp
next
  case (4 evs w)
  then show ?case by simp
qed

lemma wait_loop_gate: "isConnected (snd (wait_loop evs w)) = isConnected w"
  by (induction evs w rule: wait_loop.induct) simp_all


text \<open>A callback whose state differs from the stored one stores no code.\<close>

lemma callback_handler_mismatch:
  "\<not> strict_eq (q_state q) (p_state w) \<Longrightarrow>
   authorizationCode (callback_handler q w) = authorizationCode w"
  by (simp add: listener_defs split: option.splits)

text \<open>A callback that carries an error stores no code either.\<close>

lemma callback_handler_error:
  "truthy_q (q_error q) \<Longrightarrow> authorizationCode (callback_handler q w) = authorizationCode w"
  by (simp add: listener_defs split: option.splits)

text \<open>A promise that is settled stays as it is, whatever the handler does.\<close>

lemma callback_handler_promise_settled:
  "startPromise w \<noteq> Pending \<Longrightarrow> startPromise (callback_handler q w) = startPromise w"
  by (cases "startPromise w") (simp_all add: listener_defs split: option.splits)

section \<open>The listener and a second request\<close>

text \<open>
  C9 (the code differs). Every branch of the handler answers and calls \<^verbatim>\<open>close()\<close>, but
  the handler does not refuse a later request and \<^verbatim>\<open>close()\<close> leaves the open connection:
  after a first request that carries neither code nor error the server is closed, and a
  second request on the same connection is served all the same. It is answered as a
  success, its code is stored, and the attempt completes with it.
\<close>

theorem listener_serves_second_request:
  "oauthServer (awaiting env0) = Some Listening
   \<and> oauthServer (callback_handler q_malformed (awaiting env0)) = Some Closed
   \<and> new_events (awaiting env0) (callback_handler q_malformed (awaiting env0))
       = [EvRespond ''<h1>OAuth Error</h1><p>Invalid state parameter</p>'', EvServerClose]
   \<and> new_events (callback_handler q_malformed (awaiting env0))
         (callback_handler q_good (callback_handler q_malformed (awaiting env0)))
       = [EvRespond ''<h1>Authentication Successful</h1><p>You can close this window and return to your application.</p>'',
          EvServerClose]
   \<and> authorizationCode (callback_handler q_good (callback_handler q_malformed (awaiting env0)))
       = QStr ''abc123''
   \<and> filter is_respond (trace (snd (connect env_two_requests cfg0 initial)))
       = [EvRespond ''<h1>OAuth Error</h1><p>Invalid state parameter</p>'',
          EvRespond ''<h1>Authentication Successful</h1><p>You can close this window and return to your application.</p>'']
   \<and> fst (connect env_two_requests cfg0 initial) = Inr ()"
  by (simp add: env_two_requests_def model_defs listener_defs run_defs new_events_def)

section \<open>A forged state\<close>

text \<open>
  C1 (the code differs). A callback whose state does not equal the stored CSRF state is
  answered with an error and its code is not stored, but the attempt is not aborted: the
  handler's \<^verbatim>\<open>reject\<close> meets a promise that is settled, and \<^verbatim>\<open>connect\<close> goes on waiting.
  When a well-formed callback follows, its code is stored and exchanged and the connection
  is made. When a code is left from an earlier attempt whose exchange failed, the wait
  ends with that code and the exchange is entered though only the forged callback came.
\<close>

theorem forged_state_does_not_abort:
  "\<not> strict_eq (q_state q_forged) (p_state (awaiting env_mismatch))
   \<and> authorizationCode (callback_handler q_forged (awaiting env_mismatch)) = QAbsent
   \<and> startPromise (callback_handler q_forged (awaiting env_mismatch)) = Resolved
   \<and> fst (connect env_mismatch cfg0 initial) = Inr ()
   \<and> filter is_respond (trace (snd (connect env_mismatch cfg0 initial)))
       = [EvRespond ''<h1>OAuth Error</h1><p>Invalid state parameter</p>'',
          EvRespond ''<h1>Authentication Successful</h1><p>You can close this window and return to your application.</p>'']
   \<and> filter is_exchange (trace (snd (connect env_mismatch cfg0 initial)))
       = [EvExchange ''https://idp.example/tenant'' (QStr ''abc123'') ''verifier-1''
            ''http://localhost:3000/oauth/callback'']
   \<and> fst (connect env_exchange_fails cfg0 initial) = Inl (External ''invalid_grant'')
   \<and> authorizationCode w_stale = QStr ''abc123''
   \<and> fst (connect env_forged_only cfg0 w_stale) = Inr ()
   \<and> filter is_exchange (new_events w_stale (snd (connect env_forged_only cfg0 w_stale)))
       = [EvExchange ''https://idp.example/tenant'' (QStr ''abc123'') ''verifier-1''
            ''http://localhost:3000/oauth/callback'']"
  by (simp add: env_mismatch_def env_exchange_fails_def env_forged_only_def w_stale_def
      model_defs listener_defs run_defs new_events_def)

section \<open>A denied authorization\<close>

text \<open>
  C4 (the code differs). The callback carries \<^verbatim>\<open>error=access_denied\<close>. The handler answers
  the browser and calls \<^verbatim>\<open>reject\<close> with the OAuth error, but the promise was resolved when
  the server began to listen, so the call does nothing: the attempt lasts until the timer
  of the wait and fails with the timeout fault. The gate stays closed.
\<close>

theorem denied_callback_fails_with_timeout:
  "fst (start env_denied cfg0 initial) = Inl (Error ''Authorization code timeout'')
   \<and> fst (start env_denied cfg0 initial) \<noteq> Inl (Error ''OAuth error: access_denied'')
   \<and> filter is_respond (trace (snd (start env_denied cfg0 initial)))
       = [EvRespond ''<h1>OAuth Error</h1><p>access_denied</p>'']
   \<and> startPromise (snd (start env_denied cfg0 initial)) = Resolved
   \<and> isConnected (snd (start env_denied cfg0 initial)) = False
   \<and> connected (snd (start env_denied cfg0 initial)) = False"
  by (simp add: env_denied_def model_defs listener_defs run_defs connected_def)

section \<open>The actions of the authorization flow\<close>

lemma discoverPRM_extends:
  "discoverOAuthProtectedResourceMetadata E s w = (r, w') \<Longrightarrow> extends (auth_event sc) w w'"
  by (auto simp: discoverOAuthProtectedResourceMetadata_def extends_iff)

lemma discoverOAuthMetadata_extends:
  "discoverOAuthMetadata E s w = (r, w') \<Longrightarrow> extends (auth_event sc) w w'"
  by (auto simp: discoverOAuthMetadata_def fetch_def extends_iff
      split: option.splits sum.splits if_splits)

text \<open>The provider always has client information, so no registration is made.\<close>

lemma customAuth_client_eq:
  "customAuth_client E cfg options a w =
     (case p_clientInformation w of
        None \<Rightarrow>
          (Inr \<lparr>client_id = clientId cfg, client_secret = Some (clientSecret cfg)\<rparr>,
           w\<lparr>p_clientInformation :=
               Some \<lparr>client_id = clientId cfg, client_secret = Some (clientSecret cfg)\<rparr>\<rparr>)
      | Some ci \<Rightarrow> (Inr ci, w))"
  by (simp add: customAuth_client_def clientInformation_def Let_def split: option.splits)

lemma customAuth_client_extends:
  "customAuth_client E cfg options a w = (r, w') \<Longrightarrow> extends (auth_event sc) w w'"
  by (auto simp: customAuth_client_eq extends_iff split: option.splits)

lemma customAuth_exchange_extends:
  "customAuth_exchange E cfg options a md ci w = (r, w') \<Longrightarrow> extends (auth_event sc) w w'"
  by (auto simp: customAuth_exchange_def exchangeAuthorization_def saveTokens_def extends_iff
      split: sum.splits)

lemma startOAuthServer_extends:
  "startOAuthServer E cfg w = (r, w') \<Longrightarrow> extends (auth_event sc) w w'"
  by (auto simp: startOAuthServer_def promise_resolve_def promise_reject_def extends_iff Let_def
      split: option.splits)

lemma redirectToAuthorization_extends:
  "redirectToAuthorization E cfg u w = (r, w') \<Longrightarrow> extends (auth_event sc) w w'"
  by (auto simp: redirectToAuthorization_def split: prod.splits sum.splits
      dest!: startOAuthServer_extends [where sc = sc] intro: extends_emit)

lemma state_extends: "state E w = (st, w') \<Longrightarrow> extends (auth_event sc) w w'"
  by (auto simp: state_def extends_iff Let_def split: option.splits if_splits)

lemma customAuth_authorize_extends:
  assumes "customAuth_authorize E cfg options a ci w = (r, w')"
  shows "extends (auth_event (js_or (ao_scope options) None)) w w'"
proof -
  let ?sc = "js_or (ao_scope options) None"
  obtain st w1 where s: "state E w = (st, w1)"
    by (cases "state E w")
  then have e1: "extends (auth_event ?sc) w w1"
    by (rule state_extends)
  obtain r2 w2 where a: "startAuthorization E a ci (Some st) (redirectUri cfg) ?sc w1 = (r2, w2)"
    by (cases "startAuthorization E a ci (Some st) (redirectUri cfg) ?sc w1")
  then have "extends (auth_event ?sc) w1 w2"
    by (auto simp: startAuthorization_def extends_iff)
  with e1 have e2: "extends (auth_event ?sc) w w2"
    by (rule extends_trans)
  show ?thesis
  proof (cases r2)
    case (Inl e)
    with assms s a e2 show ?thesis
      by (simp add: customAuth_authorize_def clientMetadata_def)
  next
    case (Inr p)
    obtain u v where p: "p = (u, v)" by (cases p)
    show ?thesis
    proof (cases "adjust_url E a u")
      case None
      with assms s a e2 Inr p show ?thesis
        by (simp add: customAuth_authorize_def clientMetadata_def)
    next
      case (Some u')
      obtain r3 w3 where d: "redirectToAuthorization E cfg u' (saveCodeVerifier v w2) = (r3, w3)"
        by (cases "redirectToAuthorization E cfg u' (saveCodeVerifier v w2)")
      then have "extends (auth_event ?sc) (saveCodeVerifier v w2) w3"
        by (rule redirectToAuthorization_extends)
      then have "extends (auth_event ?sc) w2 w3"
        by (simp add: extends_iff saveCodeVerifier_def)
      with e2 have "extends (auth_event ?sc) w w3"
        by (rule extends_trans)
      with assms s a Inr p Some d show ?thesis
        by (auto simp: customAuth_authorize_def clientMetadata_def split: sum.splits)
    qed
  qed
qed

lemma customAuth_tokens_extends:
  assumes "customAuth_tokens E cfg options a md ci w = (r, w')"
  shows "extends (auth_event (js_or (ao_scope options) None)) w w'"
proof -
  let ?sc = "js_or (ao_scope options) None"
  show ?thesis
  proof (cases "\<exists>t rt. p_tokens w = Some t \<and> refresh_token t = Some rt \<and> rt \<noteq> []")
    case False
    with assms have "customAuth_authorize E cfg options a ci w = (r, w')"
      by (auto simp: customAuth_tokens_def split: option.splits if_splits)
    then show ?thesis by (rule customAuth_authorize_extends)
  next
    case True
    then obtain t rt where t: "p_tokens w = Some t" "refresh_token t = Some rt" "rt \<noteq> []"
      by blast
    obtain r1 w1 where f: "refreshAuthorization E a md ci rt w = (r1, w1)"
      by (cases "refreshAuthorization E a md ci rt w")
    then have e1: "extends (auth_event ?sc) w w1"
      by (auto simp: refreshAuthorization_def extends_iff)
    show ?thesis
    proof (cases r1)
      case (Inr nt)
      with assms t f e1 show ?thesis
        by (auto simp: customAuth_tokens_def saveTokens_def extends_iff)
    next
      case (Inl e)
      with assms t f have "customAuth_authorize E cfg options a ci w1 = (r, w')"
        by (simp add: customAuth_tokens_def)
      then have "extends (auth_event ?sc) w1 w'"
        by (rule customAuth_authorize_extends)
      with e1 show ?thesis by (rule extends_trans)
    qed
  qed
qed

lemma customAuth_extends:
  assumes "customAuth E cfg options w = (r, w')"
  shows "extends (auth_event (js_or (ao_scope options) None)) w w'"
proof -
  let ?sc = "js_or (ao_scope options) None"
  obtain r1 w1 where d1: "discoverOAuthProtectedResourceMetadata E (ao_serverUrl options) w = (r1, w1)"
    by (cases "discoverOAuthProtectedResourceMetadata E (ao_serverUrl options) w")
  let ?a = "select_authorization_server (ao_serverUrl options) r1"
  obtain r2 w2 where d2: "discoverOAuthMetadata E ?a w1 = (r2, w2)"
    by (cases "discoverOAuthMetadata E ?a w1")
  from d1 d2 have e2: "extends (auth_event ?sc) w w2"
    by (blast intro: extends_trans discoverPRM_extends discoverOAuthMetadata_extends)
  show ?thesis
  proof (cases r2)
    case (Inl e)
    with assms d1 d2 e2 show ?thesis by (simp add: customAuth_def)
  next
    case (Inr md)
    obtain r3 w3 where c: "customAuth_client E cfg options ?a w2 = (r3, w3)"
      by (cases "customAuth_client E cfg options ?a w2")
    with e2 have e3: "extends (auth_event ?sc) w w3"
      by (blast intro: extends_trans customAuth_client_extends)
    show ?thesis
    proof (cases r3)
      case (Inl e)
      with assms d1 d2 Inr c e3 show ?thesis by (simp add: customAuth_def)
    next
      case ci: (Inr ci)
      show ?thesis
      proof (cases "ao_authorizationCode options \<noteq> QAbsent")
        case True
        with assms d1 d2 Inr c ci
        have "customAuth_exchange E cfg options ?a md ci w3 = (r, w')"
          by (simp add: customAuth_def)
        with e3 show ?thesis
          by (blast intro: extends_trans customAuth_exchange_extends)
      next
        case False
        with assms d1 d2 Inr c ci
        have "customAuth_tokens E cfg options ?a md ci w3 = (r, w')"
          by (simp add: customAuth_def)
        with e3 show ?thesis
          by (blast intro: extends_trans customAuth_tokens_extends)
      qed
    qed
  qed
qed

lemma auth_connect_event: "auth_event sc e \<Longrightarrow> connect_event sc e"
  by (cases e) simp_all

lemma listener_connect_event: "listener_event e \<Longrightarrow> connect_event sc e"
  by (cases e) simp_all

lemma connect_finish_extends:
  "connect_finish E cfg a w = (r, w') \<Longrightarrow> extends (connect_event sc) w w'"
  by (auto simp: connect_finish_def connectToMcpServer_def extends_iff
      split: if_splits option.splits prod.splits sum.splits)

lemma connect_redirect_extends:
  assumes "connect_redirect E cfg s w = (r, w')"
  shows "extends (connect_event (js_or (Some s) None)) w w'"
proof -
  let ?P = "connect_event (js_or (Some s) None)"
  obtain r1 w1 where wt: "waitForAuthorizationCode E w = (r1, w1)"
    by (cases "waitForAuthorizationCode E w")
  then have "w1 = snd (wait_loop (e_wait E (now w)) w)"
    by (simp add: waitForAuthorizationCode_def)
  with wait_loop_extends [of w "e_wait E (now w)"] have e1: "extends ?P w w1"
    by (blast intro: extends_mono listener_connect_event)
  show ?thesis
  proof (cases "\<exists>u. r1 = Inr u \<and> truthy_q (getAuthorizationCode w1)")
    case False
    with assms wt e1 show ?thesis
      by (auto simp: connect_redirect_def split: sum.splits if_splits)
  next
    case True
    let ?o = "\<lparr>ao_serverUrl = mcpServer_url cfg, ao_scope = Some s,
               ao_authorizationCode = getAuthorizationCode w1\<rparr>"
    obtain r2 w2 where c: "customAuth E cfg ?o w1 = (r2, w2)"
      by (cases "customAuth E cfg ?o w1")
    from customAuth_extends [OF c] have "extends ?P w1 w2"
      by (auto intro: extends_mono auth_connect_event)
    with e1 have e2: "extends ?P w w2"
      by (rule extends_trans)
    then have "extends ?P w (clearAuthorizationCode w2)"
      by (simp add: extends_iff clearAuthorizationCode_def)
    with assms wt True c e2 show ?thesis
      by (auto simp: connect_redirect_def split: sum.splits)
  qed
qed

text \<open>The scope string that \<^verbatim>\<open>connect\<close> hands to \<^verbatim>\<open>customAuth\<close>.\<close>

lemma connect_extends:
  assumes "connect E cfg w = (r, w')"
  shows "extends (connect_event (connect_scope E cfg w)) w w'"
proof -
  let ?P = "connect_event (connect_scope E cfg w)"
  obtain r1 w1 where d: "discoverOAuthProtectedResourceMetadata E (mcpServer_url cfg) w = (r1, w1)"
    by (cases "discoverOAuthProtectedResourceMetadata E (mcpServer_url cfg) w")
  then have e1: "extends ?P w w1"
    by (blast intro: extends_mono auth_connect_event discoverPRM_extends)
  show ?thesis
  proof (cases "\<exists>rm. r1 = Inr (Some rm)")
    case False
    with assms d e1 show ?thesis
      by (auto simp: connect_def extends_iff split: sum.splits option.splits)
  next
    case True
    then obtain rm where rm: "r1 = Inr (Some rm)" by blast
    let ?s = "join '' '' (requestedScopes cfg (blank_resource rm))"
    from d rm have sc: "connect_scope E cfg w = js_or (Some ?s) None"
      by (auto simp: connect_scope_def discoverOAuthProtectedResourceMetadata_def)
    let ?o = "\<lparr>ao_serverUrl = mcpServer_url cfg, ao_scope = Some ?s,
               ao_authorizationCode = QAbsent\<rparr>"
    let ?w1 = "w1\<lparr>resourceMetadata := Some (blank_resource rm)\<rparr>"
    obtain r2 w2 where c: "customAuth E cfg ?o ?w1 = (r2, w2)"
      by (cases "customAuth E cfg ?o ?w1")
    from customAuth_extends [OF c] sc have "extends ?P ?w1 w2"
      by (auto intro: extends_mono auth_connect_event)
    then have "extends ?P w1 w2"
      by (simp add: extends_iff)
    with e1 have e2: "extends ?P w w2"
      by (rule extends_trans)
    show ?thesis
    proof (cases r2)
      case (Inl e)
      with assms d rm c e2 show ?thesis by (simp add: connect_def)
    next
      case (Inr a)
      show ?thesis
      proof (cases a)
        case AUTHORIZED
        with assms d rm c Inr have "connect_finish E cfg AUTHORIZED w2 = (r, w')"
          by (simp add: connect_def)
        with e2 show ?thesis
          by (blast intro: extends_trans connect_finish_extends)
      next
        case REDIRECT
        obtain r3 w3 where cr: "connect_redirect E cfg ?s w2 = (r3, w3)"
          by (cases "connect_redirect E cfg ?s w2")
        from connect_redirect_extends [OF cr] sc e2 have e3: "extends ?P w w3"
          by (auto intro: extends_trans)
        show ?thesis
        proof (cases r3)
          case (Inl e)
          with assms d rm c Inr REDIRECT cr e3 show ?thesis by (simp add: connect_def)
        next
          case a': (Inr a')
          with assms d rm c Inr REDIRECT cr have "connect_finish E cfg a' w3 = (r, w')"
            by (simp add: connect_def)
          with e3 show ?thesis
            by (blast intro: extends_trans connect_finish_extends)
        qed
      qed
    qed
  qed
qed

section \<open>Client credentials\<close>

lemma connect_event_not_register: "connect_event sc e \<Longrightarrow> \<not> is_register e"
  by (cases e) simp_all

lemma connect_event_scope: "connect_event sc e \<Longrightarrow> scope_is sc e"
  by (cases e) simp_all

text \<open>The provider always answers with client information, so no attempt registers.\<close>

lemma connect_never_registers:
  "list_all (\<lambda>e. \<not> is_register e) (new_events w (snd (connect E cfg w)))"
proof -
  obtain r w' where c: "connect E cfg w = (r, w')"
    by (cases "connect E cfg w")
  from connect_extends [OF c] have "extends (\<lambda>e. \<not> is_register e) w w'"
    by (rule extends_mono) (rule connect_event_not_register)
  with c show ?thesis
    by (simp add: extends_def)
qed

text \<open>
  C7 (the code differs). With a configuration that supplies no client id and no secret,
  the first connection attempt issues no dynamic client registration request:
  \<^verbatim>\<open>clientInformation\<close> makes client information out of the empty configuration, so the
  registration that \<^verbatim>\<open>customAuth\<close> is written to make is skipped, and the attempt goes
  through authorization and exchange with an empty client id.
\<close>

theorem no_registration_without_credentials:
  "clientId cfg_nocreds = [] \<and> clientSecret cfg_nocreds = []
   \<and> p_clientInformation initial = None
   \<and> fst (clientInformation cfg_nocreds initial)
       = Some \<lparr>client_id = [], client_secret = Some []\<rparr>
   \<and> fst (connect env0 cfg_nocreds initial) = Inr ()
   \<and> filter is_register (trace (snd (connect env0 cfg_nocreds initial))) = []
   \<and> p_clientInformation (snd (connect env0 cfg_nocreds initial))
       = Some \<lparr>client_id = [], client_secret = Some []\<rparr>"
  by (simp add: cfg_nocreds_def model_defs listener_defs run_defs)

section \<open>The requested scope\<close>

lemma scopes_supported_blank [simp]:
  "scopes_supported (blank_resource rm) = scopes_supported rm"
  by (simp add: blank_resource_def split: option.splits)

text \<open>
  C8 (as amended). Every authorization URL that a connection attempt constructs is built
  with the scope made of the configured scopes joined with single spaces when at least one
  scope is configured, and otherwise of the scopes advertised by the protected-resource
  metadata joined with single spaces; when that string is empty the URL is built with no
  scope at all. The scope is the argument handed to the SDK's \<^verbatim>\<open>startAuthorization\<close>,
  which writes the query parameter.
\<close>

theorem authorization_scope:
  assumes "e_discoverPRM E (now w) (mcpServer_url cfg) = Inr (Some rm)"
  shows "list_all
           (scope_is (scope_parameter
              (if scopes cfg \<noteq> [] then scopes cfg
               else (case scopes_supported rm of Some ss \<Rightarrow> ss | None \<Rightarrow> []))))
           (new_events w (snd (connect E cfg w)))"
proof -
  obtain r w' where c: "connect E cfg w = (r, w')"
    by (cases "connect E cfg w")
  from assms have "connect_scope E cfg w =
      scope_parameter (if scopes cfg \<noteq> [] then scopes cfg
               else (case scopes_supported rm of Some ss \<Rightarrow> ss | None \<Rightarrow> []))"
    by (simp add: connect_scope_def scope_parameter_def requestedScopes_def)
  with connect_extends [OF c]
  have "extends (scope_is (scope_parameter (if scopes cfg \<noteq> [] then scopes cfg
               else (case scopes_supported rm of Some ss \<Rightarrow> ss | None \<Rightarrow> [])))) w w'"
    by (auto intro: extends_mono connect_event_scope)
  with c show ?thesis
    by (simp add: extends_def)
qed

theorem authorization_scope_witness:
  "e_discoverPRM env0 (now initial) (mcpServer_url cfg0) = Inr (Some rm0)
   \<and> scopes cfg0 = [] \<and> scopes_supported rm0 = Some [''read'', ''write'']
   \<and> list_all (scope_is (Some ''read write''))
       (new_events initial (snd (connect env0 cfg0 initial)))
   \<and> filter is_start (trace (snd (connect env0 cfg0 initial)))
       = [EvStartAuthorization ''https://idp.example/tenant'' (Some ''c0ffee'')
            ''http://localhost:3000/oauth/callback'' (Some ''read write'')]"
proof -
  have h: "e_discoverPRM env0 (now initial) (mcpServer_url cfg0) = Inr (Some rm0)"
    by (simp add: env0_def)
  have s: "filter is_start (trace (snd (connect env0 cfg0 initial)))
       = [EvStartAuthorization ''https://idp.example/tenant'' (Some ''c0ffee'')
            ''http://localhost:3000/oauth/callback'' (Some ''read write'')]"
    by (simp add: model_defs listener_defs run_defs)
  from authorization_scope [OF h] h s show ?thesis
    by (simp add: cfg0_def rm0_def scope_parameter_def)
qed

text \<open>
  C8 as stated fails: with no scope configured and an empty list of scopes advertised, the
  claim asks for the scope that is the empty string; the authorization URL is built with
  no scope.
\<close>

theorem authorization_scope_counterexample:
  "scopes cfg0 = []
   \<and> e_discoverPRM env_noscopes 0 (mcpServer_url cfg0) = Inr (Some (rm0\<lparr>scopes_supported := Some []\<rparr>))
   \<and> filter is_start (trace (snd (connect env_noscopes cfg0 initial)))
       = [EvStartAuthorization ''https://idp.example/tenant'' (Some ''c0ffee'')
            ''http://localhost:3000/oauth/callback'' None]
   \<and> \<not> list_all (scope_is (Some (join '' '' [])))
         (trace (snd (connect env_noscopes cfg0 initial)))"
  by (simp add: env_noscopes_def model_defs listener_defs run_defs)

section \<open>The request forwarder\<close>

text \<open>
  C10. Stopping the proxy never throws. It closes the gate before it asks anything to
  close, so that the gate is closed and the proxy reports not connected when stop returns,
  also when closing the upstream client or the stdio server fails.
\<close>

theorem stop_never_throws:
  "fst (stop E w) = Inr ()
   \<and> isConnected (snd (stop E w)) = False
   \<and> connected (snd (stop E w)) = False
   \<and> new_events w (snd (stop E w)) =
       EvGate False #
         (case mcpClient w of
            None \<Rightarrow> [EvStdioClose]
          | Some c \<Rightarrow>
              (case e_clientClose E (Suc (now w)) of
                 Some m \<Rightarrow> [EvClientClose]
               | None \<Rightarrow> [EvClientClose, EvStdioClose]))"
  by (simp add: stop_def disconnect_def set_gate_def connected_def new_events_def
      emit_def now_def client_connected_def split: option.splits)

text \<open>With the gate closed, the two tool operations make no upstream call.\<close>

lemma handle_tools_gate_closed:
  "\<not> isConnected w \<Longrightarrow>
   handle E ListTools w = (Inr (ToolsResult []), w)
   \<and> handle E (CallTool p) w = (Inl not_connected, w)"
  by (simp add: handle_def ensureConnected_def)

text \<open>Without an upstream client object, the other four make none either.\<close>

lemma handle_no_client:
  "mcpClient w = None \<Longrightarrow>
   handle E ListResources w = (Inr (ResourcesResult []), w)
   \<and> handle E ListPrompts w = (Inr (PromptsResult []), w)
   \<and> handle E (ReadResource p) w = (Inl (Error ''MCP client not connected''), w)
   \<and> handle E (GetPrompt p) w = (Inl (Error ''MCP client not connected''), w)"
  by (simp add: handle_def listResources_def listPrompts_def readResource_def getPrompt_def
      delegate_def)

text \<open>
  C2 (the code differs). Only \<^verbatim>\<open>list_tools\<close> and \<^verbatim>\<open>call_tool\<close> check the gate. After a
  stop whose upstream close failed, the gate is closed, the client object is still there
  and the stdio server was not closed: \<^verbatim>\<open>read_resource\<close>, \<^verbatim>\<open>get_prompt\<close>,
  \<^verbatim>\<open>list_resources\<close> and \<^verbatim>\<open>list_prompts\<close> call upstream and return its answer, while the
  two tool operations behave as the claim says.
\<close>

theorem gate_closed_upstream_call:
  "isConnected w_stopped = False
   \<and> mcpClient w_stopped = Some Client
   \<and> filter (\<lambda>e. e = EvStdioClose) (trace w_stopped) = []
   \<and> handle env0 (ReadResource ''file:///notes'') w_stopped
       = (Inr (ReadResult ''upstream data''),
          emit (EvUpstream (ReadResource ''file:///notes'')) w_stopped)
   \<and> handle env0 (GetPrompt ''greet'') w_stopped
       = (Inr (ReadResult ''upstream data''), emit (EvUpstream (GetPrompt ''greet'')) w_stopped)
   \<and> handle env0 ListResources w_stopped
       = (Inr (ReadResult ''upstream data''), emit (EvUpstream ListResources) w_stopped)
   \<and> handle env0 ListPrompts w_stopped
       = (Inr (ReadResult ''upstream data''), emit (EvUpstream ListPrompts) w_stopped)
   \<and> handle env0 (CallTool ''echo'') w_stopped = (Inl not_connected, w_stopped)
   \<and> handle env0 ListTools w_stopped = (Inr (ToolsResult []), w_stopped)"
proof -
  have g: "isConnected w_stopped = False"
    by (simp add: w_stopped_def stop_def disconnect_def set_gate_def split: option.splits)
  have c: "mcpClient w_stopped = Some Client"
    by (simp add: w_stopped_def w_started_def env_close_fails_def model_defs listener_defs run_defs)
  have t: "filter (\<lambda>e. e = EvStdioClose) (trace w_stopped) = []"
    by (simp add: w_stopped_def w_started_def env_close_fails_def model_defs listener_defs run_defs)
  have u: "\<And>rq. e_upstream env0 (now w_stopped) rq = Inr (ReadResult ''upstream data'')"
    by (simp add: env0_def)
  from g c t u show ?thesis
    by (simp add: handle_def listResources_def listPrompts_def readResource_def getPrompt_def
        delegate_def ensureConnected_def)
qed

section \<open>The refresh of a stored token\<close>


















section \<open>State and verifier across attempts\<close>



















section \<open>Metadata discovery\<close>




end
